theory Spec2Isabelle
  imports Main "HOL-Library.Char_ord" "HOL-Library.List_Lexorder" "HOL-Library.AList"
begin

section \<open>Values\<close>

text \<open>
  A JavaScript string is a list of code units; the model keeps the code units below 256
  (\<^typ>\<open>char\<close>), compared by code as \<^verbatim>\<open>Array.prototype.sort\<close> compares strings.
  A \<^verbatim>\<open>Date\<close> is its number of milliseconds. An ObjectId is written in its
  24-digit hexadecimal notation, which is what \<^verbatim>\<open>_id.toString()\<close> returns.
\<close>

type_synonym object_id = string
type_synonym socket_id = string
type_synonym date = int

definition isLowerHexDigit :: "char \<Rightarrow> bool" where
  "isLowerHexDigit c = (c \<in> set ''0123456789abcdef'')"

definition isHexDigit :: "char \<Rightarrow> bool" where
  "isHexDigit c = (c \<in> set ''0123456789abcdefABCDEF'')"

definition toLowerHex :: "char \<Rightarrow> char" where
  "toLowerHex c =
     (if c = CHR ''A'' then CHR ''a'' else if c = CHR ''B'' then CHR ''b''
      else if c = CHR ''C'' then CHR ''c'' else if c = CHR ''D'' then CHR ''d''
      else if c = CHR ''E'' then CHR ''e'' else if c = CHR ''F'' then CHR ''f'' else c)"

text \<open>What \<^verbatim>\<open>ObjectId.prototype.toString\<close> can return.\<close>

definition isObjectIdString :: "string \<Rightarrow> bool" where
  "isObjectIdString s = (length s = 24 \<and> list_all isLowerHexDigit s)"

text \<open>
  The cast Mongoose applies to a value stored or queried at a path of type ObjectId: the
  24-digit hexadecimal notation is accepted, in either case, and read as the identifier it
  denotes; anything else is a CastError (\<open>None\<close>). Other notations that some driver
  versions accept are not modelled.
\<close>

definition castObjectId :: "string \<Rightarrow> object_id option" where
  "castObjectId v =
     (if length v = 24 \<and> list_all isHexDigit v then Some (map toLowerHex v) else None)"

text \<open>\<^verbatim>\<open>String.prototype.trim\<close>, on the white space below code 256.\<close>

definition isWhiteSpace :: "char \<Rightarrow> bool" where
  "isWhiteSpace c =
     (c \<in> {CHR 0x09, CHR 0x0A, CHR 0x0B, CHR 0x0C, CHR 0x0D, CHR 0x20, CHR 0xA0})"

definition trim :: "string \<Rightarrow> string" where
  "trim v = rev (dropWhile isWhiteSpace (rev (dropWhile isWhiteSpace v)))"

text \<open>\<^verbatim>\<open>!v\<close> for a value that is a string or \<^verbatim>\<open>undefined\<close>.\<close>

definition falsy :: "string option \<Rightarrow> bool" where
  "falsy v = (case v of None \<Rightarrow> True | Some c \<Rightarrow> c = [])"

section \<open>The room name\<close>

text \<open>
  \<^verbatim>\<open>const getPrivateRoomName = (user1Id, user2Id) => {
    return [user1Id, user2Id].sort().join('-private');
  };\<close>
\<close>

fun join :: "string \<Rightarrow> string list \<Rightarrow> string" where
  "join sep [] = []"
| "join sep [x] = x"
| "join sep (x # y # ys) = x @ sep @ join sep (y # ys)"

definition getPrivateRoomName :: "string \<Rightarrow> string \<Rightarrow> string" where
  "getPrivateRoomName user1Id user2Id = join ''-private'' (sort [user1Id, user2Id])"

section \<open>Documents\<close>

text \<open>
  Modelled from the spec: the user model (models/user.js) is not among the sources. The
  record has the fields the server reads and writes: the display name and the presence
  mirror \<open>isOnline\<close>, \<open>socketId\<close>, \<open>lastSeen\<close>.
\<close>

record user_doc =
  username :: string
  isOnline :: bool
  socketId :: "socket_id option"
  lastSeen :: "date option"

text \<open>The schema of models/privateMessage.js, with the timestamps Mongoose maintains.\<close>

record file_descriptor =
  filename :: string
  originalName :: string
  size_bytes :: nat
  mimetype :: string
  url :: string

text \<open>
  An element of \<^verbatim>\<open>readBy\<close>. The schema declares \<^verbatim>\<open>user\<close> and
  \<^verbatim>\<open>readAt\<close>; Mongoose casts every element of the array to a subdocument, which
  receives an \<^verbatim>\<open>_id\<close> of its own.
\<close>

record read_entry =
  read_id :: object_id
  read_user :: object_id
  readAt :: date

record private_message =
  msg_id :: object_id
  content :: "string option"
  sender :: object_id
  receiver :: object_id
  messageType :: string
  fileData :: "file_descriptor option"
  readBy :: "read_entry list"
  edited :: bool
  editedAt :: "date option"
  createdAt :: date
  updatedAt :: date

text \<open>
  A message after \<^verbatim>\<open>populate('sender', 'username')\<close> and
  \<^verbatim>\<open>populate('receiver', 'username')\<close>: each reference is replaced by the
  identifier and display name of the user, or by \<^verbatim>\<open>null\<close> when no such user
  is stored.
\<close>

record populated_message =
  doc :: private_message
  sender_ref :: "(object_id \<times> string) option"
  receiver_ref :: "(object_id \<times> string) option"

datatype db_error = CastError string | ValidatorError string

definition messageTypeEnum :: "string list" where
  "messageTypeEnum = [''text'', ''file'', ''image'']"

text \<open>
  \<^verbatim>\<open>new PrivateMessage({...})\<close> with the identifier \<open>oid\<close>, saved at time
  \<open>now\<close>: the defaults of the schema and both timestamps are filled in.
\<close>

definition newMessage ::
  "object_id \<Rightarrow> date \<Rightarrow> string option \<Rightarrow> object_id \<Rightarrow> object_id \<Rightarrow> string \<Rightarrow>
   file_descriptor option \<Rightarrow> private_message" where
  "newMessage oid now content' senderId receiverId messageType' fileData' =
     \<lparr> msg_id = oid, content = content', sender = senderId, receiver = receiverId,
       messageType = messageType', fileData = fileData', readBy = [], edited = False,
       editedAt = None, createdAt = now, updatedAt = now \<rparr>"

text \<open>
  \<^verbatim>\<open>save()\<close>: the receiver is cast to an ObjectId, the message type is checked
  against the schema's enum, the content is required for a text message and has at most
  1000 characters.
\<close>

definition save ::
  "object_id \<Rightarrow> date \<Rightarrow> string option \<Rightarrow> object_id \<Rightarrow> string \<Rightarrow> string \<Rightarrow>
   file_descriptor option \<Rightarrow> db_error + private_message" where
  "save oid now content' senderId targetUserId messageType' fileData' =
     (case castObjectId targetUserId of
        None \<Rightarrow> Inl (CastError ''receiver'')
      | Some receiverId \<Rightarrow>
          if messageType' \<notin> set messageTypeEnum then Inl (ValidatorError ''messageType'')
          else if messageType' = ''text'' \<and> falsy content' then Inl (ValidatorError ''content'')
          else if (case content' of None \<Rightarrow> False | Some c \<Rightarrow> 1000 < length c)
            then Inl (ValidatorError ''content'')
          else Inr (newMessage oid now content' senderId receiverId messageType' fileData'))"

definition populateUser :: "(object_id \<rightharpoonup> user_doc) \<Rightarrow> object_id \<Rightarrow> (object_id \<times> string) option" where
  "populateUser us i = (case us i of None \<Rightarrow> None | Some u \<Rightarrow> Some (i, username u))"

definition populate :: "(object_id \<rightharpoonup> user_doc) \<Rightarrow> private_message \<Rightarrow> populated_message" where
  "populate us m =
     \<lparr> doc = m, sender_ref = populateUser us (sender m), receiver_ref = populateUser us (receiver m) \<rparr>"

text \<open>\<^verbatim>\<open>findById\<close> and the update of the one document found.\<close>

fun findById :: "object_id \<Rightarrow> private_message list \<Rightarrow> private_message option" where
  "findById i [] = None"
| "findById i (m # ms) = (if msg_id m = i then Some m else findById i ms)"

fun updateById ::
  "object_id \<Rightarrow> (private_message \<Rightarrow> private_message) \<Rightarrow> private_message list \<Rightarrow> private_message list" where
  "updateById i f [] = []"
| "updateById i f (m # ms) = (if msg_id m = i then f m # ms else m # updateById i f ms)"

text \<open>The update operator \<^verbatim>\<open>$addToSet\<close>: the element is appended unless an equal
  element is already in the array.\<close>

definition addToSet :: "'a \<Rightarrow> 'a list \<Rightarrow> 'a list" where
  "addToSet x xs = (if x \<in> set xs then xs else xs @ [x])"

section \<open>Sockets, events and the server state\<close>

text \<open>A connected socket: \<^verbatim>\<open>socket.id\<close>, \<^verbatim>\<open>socket.user._id\<close> and
  \<^verbatim>\<open>socket.user.username\<close>, as the authentication middleware left them.\<close>

record socket =
  sock_id :: socket_id
  sock_user_id :: object_id
  sock_username :: string

record online_entry =
  entry_id :: object_id
  entry_username :: string
  entry_socketId :: socket_id

text \<open>The payload of the \<^verbatim>\<open>message\<close> event of server.js.\<close>

record message_data =
  md_id :: object_id
  md_content :: "string option"
  md_sender :: "object_id \<times> string"
  md_receiver :: "object_id \<times> string"
  md_messageType :: string
  md_fileData :: "file_descriptor option"
  md_createdAt :: date
  md_isPrivate :: bool

text \<open>The payload of the \<^verbatim>\<open>message\<close> event of the revision with read and edit
  support.\<close>

record message_payload =
  mp_id :: object_id
  mp_content :: "string option"
  mp_messageType :: string
  mp_fileData :: "file_descriptor option"
  mp_senderId :: object_id
  mp_receiverId :: string
  mp_senderUsername :: string
  mp_receiverUsername :: string
  mp_createdAt :: date
  mp_isPrivate :: bool

datatype event =
    OnlineUsers "online_entry list"
  | RecentMessages string "populated_message list" bool string
  | Message message_data
  | MessagePayload message_payload
  | MessageRead populated_message
  | MessageEdited populated_message
  | Error string

text \<open>
  Where an event goes: \<^verbatim>\<open>socket.emit\<close>, \<^verbatim>\<open>io.to(room).emit\<close>,
  \<^verbatim>\<open>io.emit\<close>.
\<close>

datatype target = ToSocket socket_id | ToRoom string | ToAll

type_synonym emission = "target \<times> event"

text \<open>
  The state: the two collections, the three module-level maps of server.js
  (\<^verbatim>\<open>onlineUsers\<close> in insertion order, as a JavaScript Map iterates), and what
  socket.io keeps: the connected sockets and the members of each room. A handler takes
  the state, the socket it runs for, the fields of the request and the time
  (\<^verbatim>\<open>new Date()\<close>), and returns the new state and the events it emits, in
  order. The database is taken to answer every operation: the only errors modelled are
  those that follow from the values themselves, a cast or a validation that fails and
  the read of a field of \<^verbatim>\<open>null\<close>.
\<close>

record server_state =
  users :: "object_id \<rightharpoonup> user_doc"
  privateMessages :: "private_message list"
  onlineUsers :: "(object_id \<times> online_entry) list"
  typingUsers :: "string \<rightharpoonup> string list"
  userRooms :: "socket_id \<rightharpoonup> string list"
  sockets :: "socket_id set"
  adapterRooms :: "string \<Rightarrow> socket_id set"

definition recipients :: "server_state \<Rightarrow> target \<Rightarrow> socket_id set" where
  "recipients s t =
     (case t of ToSocket i \<Rightarrow> {i} | ToRoom r \<Rightarrow> adapterRooms s r | ToAll \<Rightarrow> sockets s)"

definition socketJoin :: "socket_id \<Rightarrow> string \<Rightarrow> server_state \<Rightarrow> server_state" where
  "socketJoin i r s = s\<lparr> adapterRooms := (adapterRooms s)(r := insert i (adapterRooms s r)) \<rparr>"

definition socketLeave :: "socket_id \<Rightarrow> string \<Rightarrow> server_state \<Rightarrow> server_state" where
  "socketLeave i r s = s\<lparr> adapterRooms := (adapterRooms s)(r := adapterRooms s r - {i}) \<rparr>"

text \<open>\<^verbatim>\<open>User.findByIdAndUpdate(id, {isOnline, socketId, lastSeen})\<close>.\<close>

definition updateUserStatus ::
  "object_id \<Rightarrow> bool \<Rightarrow> socket_id option \<Rightarrow> date \<Rightarrow> (object_id \<rightharpoonup> user_doc) \<Rightarrow> (object_id \<rightharpoonup> user_doc)" where
  "updateUserStatus i online sid now us =
     (case us i of
        None \<Rightarrow> us
      | Some u \<Rightarrow> us(i \<mapsto> u\<lparr> isOnline := online, socketId := sid, lastSeen := Some now \<rparr>))"

section \<open>The handlers of server.js\<close>

text \<open>The connection handler (lines 147 to 172). socket.io has registered the socket.\<close>

definition connection :: "server_state \<Rightarrow> socket \<Rightarrow> date \<Rightarrow> server_state \<times> emission list" where
  "connection s sock now =
     (let s1 = s\<lparr> sockets := insert (sock_id sock) (sockets s) \<rparr>;
          s2 = s1\<lparr> users := updateUserStatus (sock_user_id sock) True (Some (sock_id sock)) now (users s1) \<rparr>;
          s3 = s2\<lparr> onlineUsers :=
                 AList.update (sock_user_id sock)
                   \<lparr> entry_id = sock_user_id sock, entry_username = sock_username sock,
                     entry_socketId = sock_id sock \<rparr>
                   (onlineUsers s2) \<rparr>;
          s4 = s3\<lparr> userRooms := (userRooms s3)(sock_id sock \<mapsto> []) \<rparr>
      in (s4, [(ToAll, OnlineUsers (map snd (onlineUsers s4)))]))"

text \<open>
  The disconnect handler (lines 326 to 363). socket.io has removed the socket from its
  rooms and from the connected sockets before the handler runs. The typing key is
  \<^verbatim>\<open>`${socket.user._id}-${socket.user.username}`\<close>.
\<close>

definition typingKey :: "socket \<Rightarrow> string" where
  "typingKey sock = sock_user_id sock @ ''-'' @ sock_username sock"

definition cleanTyping :: "string \<Rightarrow> string \<Rightarrow> (string \<rightharpoonup> string list) \<Rightarrow> (string \<rightharpoonup> string list)" where
  "cleanTyping k roomName ty =
     (case ty roomName of
        None \<Rightarrow> ty
      | Some roomTyping \<Rightarrow>
          (let roomTyping' = removeAll k roomTyping
           in if length roomTyping' = 0 then ty(roomName := None)
              else ty(roomName \<mapsto> roomTyping')))"

definition disconnect :: "server_state \<Rightarrow> socket \<Rightarrow> date \<Rightarrow> server_state \<times> emission list" where
  "disconnect s sock now =
     (let s0 = s\<lparr> sockets := sockets s - {sock_id sock},
                  adapterRooms := (\<lambda>r. adapterRooms s r - {sock_id sock}) \<rparr>;
          s1 = s0\<lparr> users := updateUserStatus (sock_user_id sock) False None now (users s0) \<rparr>;
          s2 = s1\<lparr> onlineUsers := AList.delete (sock_user_id sock) (onlineUsers s1) \<rparr>;
          userSocketRooms = (case userRooms s2 (sock_id sock) of None \<Rightarrow> [] | Some rs \<Rightarrow> rs);
          s3 = s2\<lparr> typingUsers := fold (cleanTyping (typingKey sock)) userSocketRooms (typingUsers s2) \<rparr>;
          s4 = s3\<lparr> userRooms := (userRooms s3)(sock_id sock := None) \<rparr>
      in (s4, [(ToAll, OnlineUsers (map snd (onlineUsers s4)))]))"

text \<open>
  The query of the history (lines 191 to 201): the messages of the pair, newest first,
  at most \<open>n\<close> of them, populated.
\<close>

definition betweenUsers :: "object_id \<Rightarrow> object_id \<Rightarrow> private_message \<Rightarrow> bool" where
  "betweenUsers a b m = (sender m = a \<and> receiver m = b \<or> sender m = b \<and> receiver m = a)"

definition findRecent ::
  "nat \<Rightarrow> object_id \<Rightarrow> object_id \<Rightarrow> server_state \<Rightarrow> populated_message list" where
  "findRecent n a b s =
     map (populate (users s))
       (take n (sort_key (\<lambda>m. - createdAt m) (filter (betweenUsers a b) (privateMessages s))))"

text \<open>
  The joinPrivateChat handler (lines 175 to 215). A target that is no ObjectId makes the
  query throw, after the room has been joined; the handler then reports the failure.
\<close>

definition joinPrivateChat :: "server_state \<Rightarrow> socket \<Rightarrow> string \<Rightarrow> server_state \<times> emission list" where
  "joinPrivateChat s sock targetUserId =
     (let privateRoomName = getPrivateRoomName (sock_user_id sock) targetUserId;
          currentRooms = (case userRooms s (sock_id sock) of None \<Rightarrow> [] | Some rs \<Rightarrow> rs);
          s1 = fold (socketLeave (sock_id sock)) currentRooms s;
          s2 = socketJoin (sock_id sock) privateRoomName s1;
          s3 = s2\<lparr> userRooms := (userRooms s2)(sock_id sock \<mapsto> [privateRoomName]) \<rparr>
      in case castObjectId targetUserId of
           None \<Rightarrow> (s3, [(ToSocket (sock_id sock), Error ''Failed to join private chat'')])
         | Some targetId \<Rightarrow>
             (let recentPrivateMessages = findRecent 50 (sock_user_id sock) targetId s3
              in (s3, [(ToSocket (sock_id sock),
                        RecentMessages privateRoomName (rev recentPrivateMessages) True targetUserId)])))"

text \<open>
  The sendMessage handler (lines 218 to 276). The arguments are the fields of the
  request, each \<open>None\<close> when absent; \<open>oid\<close> is the identifier the new document
  receives. A failure of \<^verbatim>\<open>save\<close>, and the read of the receiver's fields when no
  such user is stored, end in the handler's \<^verbatim>\<open>catch\<close>.
\<close>

definition sendMessage ::
  "server_state \<Rightarrow> socket \<Rightarrow> string option \<Rightarrow> string option \<Rightarrow> file_descriptor option \<Rightarrow>
   string option \<Rightarrow> date \<Rightarrow> object_id \<Rightarrow> server_state \<times> emission list" where
  "sendMessage s sock content' targetUserId' fileData' messageType' now oid =
     (let mtype = (case messageType' of None \<Rightarrow> ''text'' | Some t \<Rightarrow> t)
      in if falsy targetUserId'
         then (s, [(ToSocket (sock_id sock), Error ''Target user is required for private messages'')])
         else if mtype = ''text'' \<and> (falsy content' \<or> length (trim (case_option [] id content')) = 0)
         then (s, [])
         else if mtype = ''text'' \<and> 1000 < length (case_option [] id content')
         then (s, [(ToSocket (sock_id sock), Error ''Message too long'')])
         else
           (let targetUserId = case_option [] id targetUserId'
            in case save oid now (if mtype = ''text'' then map_option trim content' else Some [])
                      (sock_user_id sock) targetUserId mtype fileData' of
                 Inl err \<Rightarrow> (s, [(ToSocket (sock_id sock), Error ''Failed to send private message'')])
               | Inr savedMessage \<Rightarrow>
                   (let s' = s\<lparr> privateMessages := privateMessages s @ [savedMessage] \<rparr>
                    in case populateUser (users s') (receiver savedMessage) of
                         None \<Rightarrow> (s', [(ToSocket (sock_id sock), Error ''Failed to send private message'')])
                       | Some receiverRef \<Rightarrow>
                           (s', [(ToRoom (getPrivateRoomName (sock_user_id sock) targetUserId),
                                  Message \<lparr> md_id = msg_id savedMessage,
                                            md_content = content savedMessage,
                                            md_sender = (sock_user_id sock, sock_username sock),
                                            md_receiver = receiverRef,
                                            md_messageType = messageType savedMessage,
                                            md_fileData = fileData savedMessage,
                                            md_createdAt = createdAt savedMessage,
                                            md_isPrivate = True \<rparr>)]))))"

section \<open>The handlers of the revision with read and edit support\<close>


text \<open>
  \<^verbatim>\<open>PrivateMessage.findByIdAndUpdate(messageId, update, { new: true })
    .populate('sender receiver', 'username')\<close>, followed by the broadcast both handlers
  make: \<open>None\<close> when the identifier is no ObjectId (a CastError, caught and logged) or
  matches no document. The room is read from the populated references; when a reference
  is \<^verbatim>\<open>null\<close> the read throws after the update has been stored, and nothing is
  sent.
\<close>

definition updateAndBroadcast ::
  "server_state \<Rightarrow> string \<Rightarrow> (private_message \<Rightarrow> private_message) \<Rightarrow>
   (populated_message \<Rightarrow> event) \<Rightarrow> server_state \<times> emission list" where
  "updateAndBroadcast s messageId f ev =
     (case castObjectId messageId of
        None \<Rightarrow> (s, [])
      | Some i \<Rightarrow>
          (case findById i (privateMessages s) of
             None \<Rightarrow> (s, [])
           | Some m \<Rightarrow>
               (let s' = s\<lparr> privateMessages := updateById i f (privateMessages s) \<rparr>;
                    updated = populate (users s') (f m)
                in case (sender_ref updated, receiver_ref updated) of
                     (Some sref, Some rref) \<Rightarrow>
                       (s', [(ToRoom (getPrivateRoomName (fst sref) (fst rref)), ev updated)])
                   | _ \<Rightarrow> (s', []))))"

text \<open>
  The markAsRead handler (lines 223 to 238). The element handed to
  \<^verbatim>\<open>$addToSet\<close> is the subdocument Mongoose makes of
  \<^verbatim>\<open>{ user: socket.user._id, readAt: new Date() }\<close>; \<open>subId\<close> is the identifier
  that subdocument receives.
\<close>

definition markAsRead ::
  "server_state \<Rightarrow> socket \<Rightarrow> string \<Rightarrow> date \<Rightarrow> object_id \<Rightarrow> server_state \<times> emission list" where
  "markAsRead s sock messageId now subId =
     updateAndBroadcast s messageId
       (\<lambda>m. m\<lparr> readBy :=
                   addToSet \<lparr> read_id = subId, read_user = sock_user_id sock, readAt = now \<rparr>
                     (readBy m),
                 updatedAt := now \<rparr>)
       MessageRead"

text \<open>The editMessage handler (lines 241 to 256).\<close>

definition editMessage ::
  "server_state \<Rightarrow> socket \<Rightarrow> string \<Rightarrow> string \<Rightarrow> date \<Rightarrow> server_state \<times> emission list" where
  "editMessage s sock messageId newContent now =
     updateAndBroadcast s messageId
       (\<lambda>m. m\<lparr> content := Some newContent, edited := True, editedAt := Some now, updatedAt := now \<rparr>)
       MessageEdited"

section \<open>A small instance\<close>

text \<open>Two users, three connections and a server that has seen none of them yet.\<close>

definition aliceId :: object_id where
  "aliceId = ''5f1d7f3e9b1c4a0012ab34c1''"

definition bobId :: object_id where
  "bobId = ''5f1d7f3e9b1c4a0012ab34c2''"

definition alice :: socket where
  "alice = \<lparr> sock_id = ''conn1'', sock_user_id = aliceId, sock_username = ''alice'' \<rparr>"

definition aliceAgain :: socket where
  "aliceAgain = \<lparr> sock_id = ''conn2'', sock_user_id = aliceId, sock_username = ''alice'' \<rparr>"

definition bob :: socket where
  "bob = \<lparr> sock_id = ''conn3'', sock_user_id = bobId, sock_username = ''bob'' \<rparr>"

definition offline :: "string \<Rightarrow> user_doc" where
  "offline n = \<lparr> username = n, isOnline = False, socketId = None, lastSeen = None \<rparr>"

definition initialServer :: server_state where
  "initialServer =
     \<lparr> users = [aliceId \<mapsto> offline ''alice'', bobId \<mapsto> offline ''bob''],
       privateMessages = [], onlineUsers = [], typingUsers = Map.empty,
       userRooms = Map.empty, sockets = {}, adapterRooms = (\<lambda>r. {}) \<rparr>"

definition helloId :: object_id where
  "helloId = ''65a0c0ffee0000000000a001''"

definition hello :: private_message where
  "hello = \<lparr> msg_id = helloId, content = Some ''hello'', sender = aliceId, receiver = bobId,
             messageType = ''text'', fileData = None, readBy = [], edited = False,
             editedAt = None, createdAt = 10, updatedAt = 10 \<rparr>"

text \<open>Both users have joined their room, and one message has been sent.\<close>

definition chatServer :: server_state where
  "chatServer =
     initialServer\<lparr> privateMessages := [hello], sockets := {''conn1'', ''conn3''},
       adapterRooms := (\<lambda>r. {})(getPrivateRoomName aliceId bobId := {''conn1'', ''conn3''}) \<rparr>"

definition longText :: string where
  "longText = replicate 1001 (CHR ''x'')"

definition fullText :: string where
  "fullText = replicate 1000 (CHR ''x'')"

definition carolId :: object_id where
  "carolId = ''5f1d7f3e9b1c4a0012ab34c3''"


definition reply :: private_message where
  "reply = newMessage ''65a0c0ffee0000000000a003'' 12 (Some ''hi alice'') bobId aliceId ''text'' None"

definition aside :: private_message where
  "aside = newMessage ''65a0c0ffee0000000000a004'' 11 (Some ''lunch?'') aliceId carolId ''text'' None"

text \<open>Three stored messages, two of them between Alice and Bob.\<close>

definition busyServer :: server_state where
  "busyServer = chatServer\<lparr> privateMessages := [hello, reply, aside] \<rparr>"

section \<open>The room name is symmetric and tells partners apart\<close>

lemma getPrivateRoomName_if:
  "getPrivateRoomName a b = (if a \<le> b then a @ ''-private'' @ b else b @ ''-private'' @ a)"
  by (simp add: getPrivateRoomName_def)

lemma getPrivateRoomName_commute: "getPrivateRoomName a b = getPrivateRoomName b a"
proof (cases "a \<le> b"; cases "b \<le> a")
  assume "a \<le> b" "b \<le> a"
  then have "a = b" by simp
  then show ?thesis by simp
qed (simp_all add: getPrivateRoomName_if)

lemma le_append_self: "(xs :: string) \<le> xs @ ys"
  by (induction xs) simp_all

lemma room_cross_case:
  assumes nodash: "CHR ''-'' \<notin> set a" and lt: "c < a"
  shows "a @ ''-private'' @ b \<noteq> c @ ''-private'' @ a"
proof
  assume eq: "a @ ''-private'' @ b = c @ ''-private'' @ a"
  from append_eq_append_conv2 [THEN iffD1, OF eq]
  obtain us where "a = c @ us \<and> us @ ''-private'' @ b = ''-private'' @ a
      \<or> a @ us = c \<and> ''-private'' @ b = us @ ''-private'' @ a"
    by blast
  then show False
  proof
    assume h: "a = c @ us \<and> us @ ''-private'' @ b = ''-private'' @ a"
    then have a: "a = c @ us" and e: "us @ ''-private'' @ b = ''-private'' @ a"
      by blast+
    show False
    proof (cases us)
      case Nil
      with a have "a = c" by simp
      with lt show False by simp
    next
      case (Cons u us')
      from e have "hd (us @ ''-private'' @ b) = hd (''-private'' @ a)"
        by (rule arg_cong)
      with Cons have "u = CHR ''-''" by simp
      with Cons have "CHR ''-'' \<in> set us" by simp
      with a have "CHR ''-'' \<in> set a" by simp
      with nodash show False by simp
    qed
  next
    assume h: "a @ us = c \<and> ''-private'' @ b = us @ ''-private'' @ a"
    then have "c = a @ us" by blast
    then have "a \<le> c" using le_append_self [of a us] by simp
    with lt show False by simp
  qed
qed

lemma getPrivateRoomName_inj:
  assumes nodash: "CHR ''-'' \<notin> set a" and ne: "b \<noteq> c"
  shows "getPrivateRoomName a b \<noteq> getPrivateRoomName a c"
proof (cases "a \<le> b"; cases "a \<le> c")
  assume "a \<le> b" "a \<le> c"
  with ne show ?thesis by (simp add: getPrivateRoomName_if)
next
  assume "\<not> a \<le> b" "\<not> a \<le> c"
  with ne show ?thesis by (simp add: getPrivateRoomName_if)
next
  assume h: "a \<le> b" "\<not> a \<le> c"
  then have "c < a" by simp
  from room_cross_case [OF nodash this, of b] h show ?thesis
    by (simp add: getPrivateRoomName_if)
next
  assume h: "\<not> a \<le> b" "a \<le> c"
  then have "b < a" by simp
  from room_cross_case [OF nodash this, of c] h show ?thesis
    by (simp add: getPrivateRoomName_if)
qed

lemma dash_not_hex: "\<not> isLowerHexDigit (CHR ''-'')"
  by (simp add: isLowerHexDigit_def)

lemma objectId_no_dash: "isObjectIdString a \<Longrightarrow> CHR ''-'' \<notin> set a"
  using dash_not_hex by (auto simp: isObjectIdString_def list_all_iff)

text \<open>
  C6. The room name does not depend on the order of its two arguments, and for an
  identity \<open>a\<close> (the hexadecimal notation of an ObjectId, which is what every call
  passes for the connected user) two different partners \<open>b\<close> and \<open>c\<close> never get the
  same room name; \<open>b\<close> and \<open>c\<close> may be any strings.
\<close>

theorem getPrivateRoomName_symmetric_distinguishing:
  "getPrivateRoomName a b = getPrivateRoomName b a \<and>
   (isObjectIdString a \<and> b \<noteq> c \<longrightarrow> getPrivateRoomName a b \<noteq> getPrivateRoomName a c)"
  using getPrivateRoomName_commute [of a b] getPrivateRoomName_inj [of a b c] objectId_no_dash [of a]
  by blast

theorem getPrivateRoomName_symmetric_distinguishing_witness:
  "getPrivateRoomName ''5f1d7f3e9b1c4a0012ab34cd'' ''5f1d7f3e9b1c4a0012ab34ce''
     = getPrivateRoomName ''5f1d7f3e9b1c4a0012ab34ce'' ''5f1d7f3e9b1c4a0012ab34cd'' \<and>
   isObjectIdString ''5f1d7f3e9b1c4a0012ab34cd'' \<and>
   ''5f1d7f3e9b1c4a0012ab34ce'' \<noteq> ''5f1d7f3e9b1c4a0012ab34cf'' \<and>
   getPrivateRoomName ''5f1d7f3e9b1c4a0012ab34cd'' ''5f1d7f3e9b1c4a0012ab34ce''
     \<noteq> getPrivateRoomName ''5f1d7f3e9b1c4a0012ab34cd'' ''5f1d7f3e9b1c4a0012ab34cf''"
proof -
  have i: "isObjectIdString ''5f1d7f3e9b1c4a0012ab34cd''"
    by (simp add: isObjectIdString_def isLowerHexDigit_def)
  have n: "''5f1d7f3e9b1c4a0012ab34ce'' \<noteq> ''5f1d7f3e9b1c4a0012ab34cf''"
    by simp
  from getPrivateRoomName_symmetric_distinguishing
    [of "''5f1d7f3e9b1c4a0012ab34cd''" "''5f1d7f3e9b1c4a0012ab34ce''" "''5f1d7f3e9b1c4a0012ab34cf''"]
    i n
  show ?thesis by blast
qed

text \<open>
  The hypothesis on \<open>a\<close> is needed: strings that contain the separator, which no
  ObjectId does, can share a room name with two different partners.
\<close>

lemma getPrivateRoomName_separator_collision:
  "getPrivateRoomName ''-privatez-private'' ''z-private''
     = getPrivateRoomName ''-privatez-private'' ''-privatez''"
  by (simp add: getPrivateRoomName_def)

section \<open>Presence: connect and disconnect\<close>

lemma connection_presence:
  "map_of (onlineUsers (fst (connection s sock now))) (sock_user_id sock)
     = Some \<lparr> entry_id = sock_user_id sock, entry_username = sock_username sock,
              entry_socketId = sock_id sock \<rparr>"
  by (simp add: connection_def Let_def update_conv')

lemma connection_user:
  "users s (sock_user_id sock) = Some d \<Longrightarrow>
   users (fst (connection s sock now)) (sock_user_id sock)
     = Some (d\<lparr> isOnline := True, socketId := Some (sock_id sock), lastSeen := Some now \<rparr>)"
  by (simp add: connection_def Let_def updateUserStatus_def)

lemma disconnect_presence:
  "map_of (onlineUsers (fst (disconnect s sock now))) (sock_user_id sock) = None"
  by (simp add: disconnect_def Let_def delete_conv')

lemma disconnect_user:
  "users s (sock_user_id sock) = Some d \<Longrightarrow>
   users (fst (disconnect s sock now)) (sock_user_id sock)
     = Some (d\<lparr> isOnline := False, socketId := None, lastSeen := Some now \<rparr>)"
  by (simp add: disconnect_def Let_def updateUserStatus_def)

text \<open>
  C1, as the code has it. After two connects of the same identity \<open>u\<close>, with connections
  \<open>c1\<close> then \<open>c2\<close>, the presence table and the user record show \<open>u\<close> online with the
  connection of \<open>c2\<close>. The disconnect handler compares no connection id: the disconnect of
  \<open>c1\<close>, stale or not, removes \<open>u\<close> from the presence table and sets the user record to
  offline with no connection and the time of the disconnect as last seen.
\<close>

theorem disconnect_marks_offline_whatever_connection:
  assumes "sock_user_id c1 = u" and "sock_user_id c2 = u" and "users s u = Some d"
    and "s2 = fst (connection (fst (connection s c1 t1)) c2 t2)"
    and "s3 = fst (disconnect s2 c1 t3)"
  shows "map_option entry_socketId (map_of (onlineUsers s2) u) = Some (sock_id c2) \<and>
         users s2 u = Some (d\<lparr> isOnline := True, socketId := Some (sock_id c2), lastSeen := Some t2 \<rparr>) \<and>
         map_of (onlineUsers s3) u = None \<and>
         users s3 u = Some (d\<lparr> isOnline := False, socketId := None, lastSeen := Some t3 \<rparr>)"
proof -
  let ?s1 = "fst (connection s c1 t1)"
  from assms have u1: "users ?s1 u = Some (d\<lparr> isOnline := True, socketId := Some (sock_id c1), lastSeen := Some t1 \<rparr>)"
    using connection_user [of s c1 d t1] by simp
  from assms have p2: "map_option entry_socketId (map_of (onlineUsers s2) u) = Some (sock_id c2)"
    using connection_presence [of ?s1 c2 t2] by simp
  from assms u1 have u2: "users s2 u = Some (d\<lparr> isOnline := True, socketId := Some (sock_id c2), lastSeen := Some t2 \<rparr>)"
    using connection_user [of ?s1 c2 _ t2] by simp
  from assms have p3: "map_of (onlineUsers s3) u = None"
    using disconnect_presence [of s2 c1 t3] by simp
  from assms u2 have u3: "users s3 u = Some (d\<lparr> isOnline := False, socketId := None, lastSeen := Some t3 \<rparr>)"
    using disconnect_user [of s2 c1 _ t3] by simp
  from p2 u2 p3 u3 show ?thesis by simp
qed

theorem disconnect_marks_offline_whatever_connection_witness:
  "sock_user_id alice = aliceId \<and> sock_user_id aliceAgain = aliceId \<and>
   users initialServer aliceId = Some (offline ''alice'') \<and>
   map_option entry_socketId
     (map_of (onlineUsers (fst (connection (fst (connection initialServer alice 1)) aliceAgain 2))) aliceId)
     = Some (sock_id aliceAgain) \<and>
   users (fst (connection (fst (connection initialServer alice 1)) aliceAgain 2)) aliceId
     = Some ((offline ''alice'')\<lparr> isOnline := True, socketId := Some (sock_id aliceAgain), lastSeen := Some 2 \<rparr>) \<and>
   map_of (onlineUsers (fst (disconnect (fst (connection (fst (connection initialServer alice 1)) aliceAgain 2)) alice 3))) aliceId
     = None \<and>
   users (fst (disconnect (fst (connection (fst (connection initialServer alice 1)) aliceAgain 2)) alice 3)) aliceId
     = Some ((offline ''alice'')\<lparr> isOnline := False, socketId := None, lastSeen := Some 3 \<rparr>)"
proof -
  have a: "sock_user_id alice = aliceId" by (simp add: alice_def)
  have b: "sock_user_id aliceAgain = aliceId" by (simp add: aliceAgain_def)
  have c: "users initialServer aliceId = Some (offline ''alice'')"
    by (simp add: initialServer_def aliceId_def bobId_def)
  from disconnect_marks_offline_whatever_connection [OF a b c refl refl, of 1 2 3] a b c
  show ?thesis by simp
qed

text \<open>
  The claim as stated fails: the two connections differ, the second is the recorded one,
  and the disconnect of the first still leaves the identity absent from the presence
  table and offline in the user record.
\<close>

theorem stale_disconnect_counterexample:
  "sock_id alice \<noteq> sock_id aliceAgain \<and>
   map_option entry_socketId
     (map_of (onlineUsers (fst (connection (fst (connection initialServer alice 1)) aliceAgain 2))) aliceId)
     = Some (sock_id aliceAgain) \<and>
   map_of (onlineUsers (fst (disconnect (fst (connection (fst (connection initialServer alice 1)) aliceAgain 2)) alice 3))) aliceId
     = None \<and>
   map_option isOnline
     (users (fst (disconnect (fst (connection (fst (connection initialServer alice 1)) aliceAgain 2)) alice 3)) aliceId)
     = Some False"
  by (simp add: connection_def disconnect_def Let_def updateUserStatus_def initialServer_def
      alice_def aliceAgain_def aliceId_def bobId_def offline_def)

section \<open>Reading and editing a stored message\<close>

lemma findById_None_iff: "findById i ms = None \<longleftrightarrow> (\<forall>m \<in> set ms. msg_id m \<noteq> i)"
  by (induction ms) auto

lemma findById_Some_id: "findById i ms = Some m \<Longrightarrow> msg_id m = i"
  by (induction ms) (auto split: if_splits)

lemma findById_updateById_same:
  "findById i ms = Some m \<Longrightarrow> msg_id (f m) = i \<Longrightarrow> findById i (updateById i f ms) = Some (f m)"
  by (induction ms) (auto split: if_splits)


lemma updateAndBroadcast_unknown:
  assumes "\<forall>m \<in> set (privateMessages s). castObjectId messageId \<noteq> Some (msg_id m)"
  shows "updateAndBroadcast s messageId f ev = (s, [])"
proof (cases "castObjectId messageId")
  case None
  then show ?thesis by (simp add: updateAndBroadcast_def)
next
  case (Some i)
  with assms have "\<forall>m \<in> set (privateMessages s). msg_id m \<noteq> i" by auto
  then have "findById i (privateMessages s) = None" by (simp add: findById_None_iff)
  with Some show ?thesis by (simp add: updateAndBroadcast_def)
qed


text \<open>
  C7. A markAsRead or editMessage request whose message id matches no stored message
  (it is no ObjectId, or no stored message has it) changes nothing and sends nothing:
  the state is returned as it was, messages included, and no event is emitted, neither
  to a room nor to the caller.
\<close>

theorem unknown_message_id_silently_ignored:
  assumes "\<forall>m \<in> set (privateMessages s). castObjectId messageId \<noteq> Some (msg_id m)"
  shows "markAsRead s sock messageId now subId = (s, []) \<and>
         editMessage s sock messageId newContent now = (s, [])"
  using assms by (simp add: markAsRead_def editMessage_def updateAndBroadcast_unknown)

theorem unknown_message_id_silently_ignored_witness:
  "castObjectId ''65a0c0ffee0000000000a002'' = Some ''65a0c0ffee0000000000a002'' \<and>
   map msg_id (privateMessages chatServer) = [''65a0c0ffee0000000000a001''] \<and>
   markAsRead chatServer bob ''65a0c0ffee0000000000a002'' 20 ''65a0c0ffee0000000000b001''
     = (chatServer, []) \<and>
   editMessage chatServer bob ''65a0c0ffee0000000000a002'' ''changed'' 20 = (chatServer, [])"
proof -
  have c: "castObjectId ''65a0c0ffee0000000000a002'' = Some ''65a0c0ffee0000000000a002''"
    by (simp add: castObjectId_def isHexDigit_def toLowerHex_def)
  have n: "map msg_id (privateMessages chatServer) = [''65a0c0ffee0000000000a001'']"
    by (simp add: chatServer_def hello_def helloId_def)
  have h: "\<forall>m \<in> set (privateMessages chatServer). castObjectId ''65a0c0ffee0000000000a002'' \<noteq> Some (msg_id m)"
    by (simp add: c chatServer_def hello_def helloId_def)
  from unknown_message_id_silently_ignored
    [OF h, of bob 20 "''65a0c0ffee0000000000b001''" "''changed''"] c n
  show ?thesis by simp
qed

lemma updateAndBroadcast_state:
  assumes "castObjectId messageId = Some i" and "findById i (privateMessages s) = Some m"
  shows "fst (updateAndBroadcast s messageId f ev) = s\<lparr> privateMessages := updateById i f (privateMessages s) \<rparr>"
  using assms by (simp add: updateAndBroadcast_def Let_def split: option.splits prod.splits)







lemma length_longText: "length longText = 1001"
  by (simp only: longText_def length_replicate)





text \<open>
  C2, at a concrete input. Bob marks Alice's message as read at time 20 and again at
  time 21. The element added by \<^verbatim>\<open>$addToSet\<close> holds the time of the call and
  the identifier of the new subdocument, so the second element differs from the first and
  is added as well: the message then has two entries whose reader is Bob.
\<close>

theorem markAsRead_twice_adds_two_entries:
  "map_option readBy
     (findById helloId
        (privateMessages
           (fst (markAsRead (fst (markAsRead chatServer bob helloId 20 ''65a0c0ffee0000000000b001''))
                   bob helloId 21 ''65a0c0ffee0000000000b002''))))
     = Some [\<lparr> read_id = ''65a0c0ffee0000000000b001'', read_user = bobId, readAt = 20 \<rparr>,
             \<lparr> read_id = ''65a0c0ffee0000000000b002'', read_user = bobId, readAt = 21 \<rparr>]"
  by (simp add: markAsRead_def updateAndBroadcast_def Let_def populate_def populateUser_def
      addToSet_def
      castObjectId_def isHexDigit_def toLowerHex_def helloId_def chatServer_def
      initialServer_def hello_def aliceId_def bobId_def bob_def offline_def)

text \<open>
  The same for every stored message and every pair of calls, at different times or at the
  same time: the two subdocuments have identifiers of their own, so both are added.
\<close>

lemma markAsRead_twice_general:
  assumes "castObjectId messageId = Some i"
    and "findById i (privateMessages s) = Some m"
    and "r1 \<notin> read_id ` set (readBy m)" and "r2 \<notin> read_id ` set (readBy m)"
    and "r1 \<noteq> r2"
  shows "map_option readBy
           (findById i
              (privateMessages
                 (fst (markAsRead (fst (markAsRead s sock messageId t1 r1)) sock messageId t2 r2))))
           = Some (readBy m @
                   [\<lparr> read_id = r1, read_user = sock_user_id sock, readAt = t1 \<rparr>,
                    \<lparr> read_id = r2, read_user = sock_user_id sock, readAt = t2 \<rparr>])"
proof -
  let ?e1 = "\<lparr> read_id = r1, read_user = sock_user_id sock, readAt = t1 \<rparr>"
  let ?e2 = "\<lparr> read_id = r2, read_user = sock_user_id sock, readAt = t2 \<rparr>"
  let ?f1 = "\<lambda>m. m\<lparr> readBy := addToSet ?e1 (readBy m), updatedAt := t1 \<rparr>"
  let ?f2 = "\<lambda>m. m\<lparr> readBy := addToSet ?e2 (readBy m), updatedAt := t2 \<rparr>"
  let ?s1 = "fst (markAsRead s sock messageId t1 r1)"
  from findById_Some_id [OF assms(2)] have i: "msg_id m = i" .
  have s1: "?s1 = s\<lparr> privateMessages := updateById i ?f1 (privateMessages s) \<rparr>"
    unfolding markAsRead_def by (rule updateAndBroadcast_state [OF assms(1,2)])
  with assms(2) i have f1: "findById i (privateMessages ?s1) = Some (?f1 m)"
    by (simp add: findById_updateById_same)
  have "fst (markAsRead ?s1 sock messageId t2 r2)
          = ?s1\<lparr> privateMessages := updateById i ?f2 (privateMessages ?s1) \<rparr>"
    unfolding markAsRead_def
    by (rule updateAndBroadcast_state [OF assms(1) f1 [unfolded markAsRead_def]])
  with f1 i
  have "findById i (privateMessages (fst (markAsRead ?s1 sock messageId t2 r2))) = Some (?f2 (?f1 m))"
    by (simp add: findById_updateById_same)
  moreover from assms(3,4) have "?e1 \<notin> set (readBy m)" "?e2 \<notin> set (readBy m)"
    by (auto simp: image_iff)
  with assms(5) have "readBy (?f2 (?f1 m)) = readBy m @ [?e1, ?e2]"
    by (simp add: addToSet_def)
  ultimately show ?thesis by simp
qed

section \<open>Sending a message\<close>

lemma lowerHex_cast: "isLowerHexDigit c \<Longrightarrow> isHexDigit c \<and> toLowerHex c = c"
  unfolding isLowerHexDigit_def isHexDigit_def toLowerHex_def by auto

lemma castObjectId_objectIdString: "isObjectIdString u \<Longrightarrow> castObjectId u = Some u"
proof -
  assume a: "isObjectIdString u"
  then have "\<forall>c \<in> set u. isHexDigit c \<and> toLowerHex c = c"
    by (simp add: isObjectIdString_def list_all_iff lowerHex_cast)
  then have "list_all isHexDigit u" and "map toLowerHex u = u"
    by (simp_all add: list_all_iff map_idI)
  with a show ?thesis by (simp add: castObjectId_def isObjectIdString_def)
qed

lemma length_trim_le: "length (trim v) \<le> length v"
proof -
  have "length (trim v) \<le> length (dropWhile isWhiteSpace v)"
    using length_dropWhile_le [of isWhiteSpace "rev (dropWhile isWhiteSpace v)"]
    by (simp add: trim_def)
  also have "\<dots> \<le> length v" by (rule length_dropWhile_le)
  finally show ?thesis .
qed

lemma save_Inr:
  "save oid now c a t mt fd = Inr m \<Longrightarrow>
   \<exists>b. castObjectId t = Some b \<and> m = newMessage oid now c a b mt fd"
  by (auto simp: save_def split: option.splits if_splits)

lemma save_text_ok:
  assumes "castObjectId t = Some b" and "trim cv \<noteq> []" and "length cv \<le> 1000"
  shows "save oid now (Some (trim cv)) a t ''text'' fd
           = Inr (newMessage oid now (Some (trim cv)) a b ''text'' fd)"
proof -
  from assms(3) length_trim_le [of cv] have "\<not> 1000 < length (trim cv)" by simp
  with assms(1,2) show ?thesis
    by (simp add: save_def messageTypeEnum_def falsy_def)
qed

lemma sendMessage_state:
  "fst (sendMessage s sock c t fd mt now oid) = s \<or>
   (\<exists>tv b. t = Some tv \<and> castObjectId tv = Some b \<and>
      fst (sendMessage s sock c t fd mt now oid)
        = s\<lparr> privateMessages := privateMessages s @
             [newMessage oid now
                (if case_option ''text'' id mt = ''text'' then map_option trim c else Some [])
                (sock_user_id sock) b (case_option ''text'' id mt) fd] \<rparr>)"
proof (cases "save oid now
    (if case_option ''text'' id mt = ''text'' then map_option trim c else Some [])
    (sock_user_id sock) (case_option [] id t) (case_option ''text'' id mt) fd")
  case (Inl e)
  then show ?thesis
    by (cases mt; cases t) (simp_all add: sendMessage_def Let_def)
next
  case (Inr m)
  from save_Inr [OF Inr] obtain b where b: "castObjectId (case_option [] id t) = Some b"
    and m: "m = newMessage oid now
                (if case_option ''text'' id mt = ''text'' then map_option trim c else Some [])
                (sock_user_id sock) b (case_option ''text'' id mt) fd"
    by blast
  show ?thesis
  proof (cases t)
    case None
    then show ?thesis by (simp add: sendMessage_def Let_def falsy_def)
  next
    case (Some tv)
    with Inr b m show ?thesis
      by (cases mt) (auto simp: sendMessage_def Let_def split: option.splits)
  qed
qed

lemma sendMessage_text_accepted:
  assumes "t \<noteq> []" and "castObjectId t = Some b" and "trim cv \<noteq> []" and "length cv \<le> 1000"
    and "mt = None \<or> mt = Some ''text''"
  shows "fst (sendMessage s sock (Some cv) (Some t) fd mt now oid)
           = s\<lparr> privateMessages := privateMessages s @
                [newMessage oid now (Some (trim cv)) (sock_user_id sock) b ''text'' fd] \<rparr>"
proof -
  from assms(3) have "cv \<noteq> []" by (auto simp: trim_def)
  with assms save_text_ok [OF assms(2,3,4), of oid now "sock_user_id sock" fd]
  show ?thesis
    by (auto simp: sendMessage_def Let_def falsy_def split: option.splits)
qed

text \<open>
  C4, as the code has it. sendMessage compares the target with the caller nowhere. Every
  message it persists has the caller as sender and the identity the target denotes as
  receiver; and a send whose target is the caller's own identity, with a text that is not
  blank and has at most 1000 characters, is accepted: it persists a message whose sender
  and receiver are the same identity.
\<close>

theorem sendMessage_persists_caller_and_target:
  "(privateMessages (fst (sendMessage s sock c t fd mt now oid)) \<noteq> privateMessages s \<longrightarrow>
      (\<exists>tv m. t = Some tv \<and>
         privateMessages (fst (sendMessage s sock c t fd mt now oid)) = privateMessages s @ [m] \<and>
         sender m = sock_user_id sock \<and> castObjectId tv = Some (receiver m))) \<and>
   (isObjectIdString (sock_user_id sock) \<and> trim cv \<noteq> [] \<and> length cv \<le> 1000 \<longrightarrow>
      (\<exists>m. privateMessages (fst (sendMessage s sock (Some cv) (Some (sock_user_id sock)) fd None now oid))
             = privateMessages s @ [m] \<and>
           sender m = sock_user_id sock \<and> receiver m = sock_user_id sock))"
proof (intro conjI impI)
  assume "privateMessages (fst (sendMessage s sock c t fd mt now oid)) \<noteq> privateMessages s"
  with sendMessage_state [of s sock c t fd mt now oid]
  obtain tv b where "t = Some tv" "castObjectId tv = Some b"
    "fst (sendMessage s sock c t fd mt now oid)
        = s\<lparr> privateMessages := privateMessages s @
             [newMessage oid now
                (if case_option ''text'' id mt = ''text'' then map_option trim c else Some [])
                (sock_user_id sock) b (case_option ''text'' id mt) fd] \<rparr>"
    by auto
  then show "\<exists>tv m. t = Some tv \<and>
         privateMessages (fst (sendMessage s sock c t fd mt now oid)) = privateMessages s @ [m] \<and>
         sender m = sock_user_id sock \<and> castObjectId tv = Some (receiver m)"
    by (simp add: newMessage_def)
next
  assume a: "isObjectIdString (sock_user_id sock) \<and> trim cv \<noteq> [] \<and> length cv \<le> 1000"
  then have c: "castObjectId (sock_user_id sock) = Some (sock_user_id sock)"
    by (simp add: castObjectId_objectIdString)
  from a have n: "sock_user_id sock \<noteq> []"
    by (auto simp: isObjectIdString_def)
  from a sendMessage_text_accepted [OF n c, of cv None s sock fd now oid]
  show "\<exists>m. privateMessages (fst (sendMessage s sock (Some cv) (Some (sock_user_id sock)) fd None now oid))
             = privateMessages s @ [m] \<and>
           sender m = sock_user_id sock \<and> receiver m = sock_user_id sock"
    by (simp add: newMessage_def)
qed

theorem sendMessage_persists_caller_and_target_witness:
  "privateMessages (fst (sendMessage initialServer alice (Some ''hi'') (Some bobId) None None 5 helloId))
     \<noteq> privateMessages initialServer \<and>
   (\<exists>tv m. Some bobId = Some tv \<and>
      privateMessages (fst (sendMessage initialServer alice (Some ''hi'') (Some bobId) None None 5 helloId))
        = privateMessages initialServer @ [m] \<and>
      sender m = sock_user_id alice \<and> castObjectId tv = Some (receiver m)) \<and>
   isObjectIdString (sock_user_id alice) \<and> trim ''hi'' \<noteq> [] \<and> length ''hi'' \<le> 1000 \<and>
   (\<exists>m. privateMessages (fst (sendMessage initialServer alice (Some ''hi'') (Some (sock_user_id alice)) None None 5 helloId))
          = privateMessages initialServer @ [m] \<and>
        sender m = sock_user_id alice \<and> receiver m = sock_user_id alice)"
proof -
  have i: "isObjectIdString (sock_user_id alice)"
    by (simp add: alice_def aliceId_def isObjectIdString_def isLowerHexDigit_def)
  have t: "trim ''hi'' \<noteq> []" "length ''hi'' \<le> 1000"
    by (simp_all add: trim_def isWhiteSpace_def)
  have b: "bobId \<noteq> []" "castObjectId bobId = Some bobId"
    by (simp_all add: bobId_def castObjectId_def isHexDigit_def toLowerHex_def)
  have p: "privateMessages (fst (sendMessage initialServer alice (Some ''hi'') (Some bobId) None None 5 helloId))
     \<noteq> privateMessages initialServer"
    using sendMessage_text_accepted [OF b t, of None initialServer alice None 5 helloId]
    by (simp add: initialServer_def)
  from sendMessage_persists_caller_and_target
    [of initialServer alice "Some ''hi''" "Some bobId" None None 5 helloId "''hi''"] i t p
  show ?thesis by blast
qed

text \<open>
  The claim as stated fails: Alice sends a message to herself, and it is persisted with
  Alice as sender and as receiver.
\<close>

theorem self_message_counterexample:
  "map (\<lambda>m. (sender m, receiver m, content m))
     (privateMessages (fst (sendMessage initialServer alice (Some ''hi'') (Some aliceId) None (Some ''text'') 5 helloId)))
     = [(aliceId, aliceId, Some ''hi'')]"
  by (simp add: sendMessage_def Let_def falsy_def trim_def isWhiteSpace_def save_def newMessage_def
      messageTypeEnum_def castObjectId_def isHexDigit_def toLowerHex_def populateUser_def
      initialServer_def alice_def aliceId_def bobId_def offline_def)

text \<open>
  C5, as the code has it, for a text send (the type is \<open>text\<close> or absent) with a target.
  A content of exactly 1000 characters that is not blank is accepted and persisted,
  trimmed, when the target denotes an identity. An empty or blank content is dropped in
  silence: nothing is persisted and no event at all is emitted, no error event either. A
  content of more than 1000 characters that is not blank persists nothing and emits one
  event, the error \<open>Message too long\<close>, to the sending socket alone.
\<close>

theorem sendMessage_text_validation:
  assumes "t \<noteq> []" and "mt = None \<or> mt = Some ''text''"
  shows
    "(length cv = 1000 \<and> trim cv \<noteq> [] \<and> castObjectId t = Some b \<longrightarrow>
        (\<exists>m. privateMessages (fst (sendMessage s sock (Some cv) (Some t) fd mt now oid))
               = privateMessages s @ [m] \<and> content m = Some (trim cv))) \<and>
     (falsy c \<or> trim (case_option [] id c) = [] \<longrightarrow>
        sendMessage s sock c (Some t) fd mt now oid = (s, [])) \<and>
     (1000 < length cv \<and> trim cv \<noteq> [] \<longrightarrow>
        sendMessage s sock (Some cv) (Some t) fd mt now oid
          = (s, [(ToSocket (sock_id sock), Error ''Message too long'')]) \<and>
        recipients s (ToSocket (sock_id sock)) = {sock_id sock})"
proof (intro conjI impI)
  assume a: "length cv = 1000 \<and> trim cv \<noteq> [] \<and> castObjectId t = Some b"
  then have "length cv \<le> 1000" by simp
  with a sendMessage_text_accepted [OF assms(1) _ _ _ assms(2), of b cv s sock fd now oid]
  show "\<exists>m. privateMessages (fst (sendMessage s sock (Some cv) (Some t) fd mt now oid))
               = privateMessages s @ [m] \<and> content m = Some (trim cv)"
    by (simp add: newMessage_def)
next
  assume "falsy c \<or> trim (case_option [] id c) = []"
  with assms show "sendMessage s sock c (Some t) fd mt now oid = (s, [])"
    by (auto simp: sendMessage_def Let_def falsy_def)
next
  assume a: "1000 < length cv \<and> trim cv \<noteq> []"
  then have "cv \<noteq> []" by auto
  with a assms show "sendMessage s sock (Some cv) (Some t) fd mt now oid
          = (s, [(ToSocket (sock_id sock), Error ''Message too long'')])"
    by (auto simp: sendMessage_def Let_def falsy_def)
next
  show "recipients s (ToSocket (sock_id sock)) = {sock_id sock}"
    by (simp add: recipients_def)
qed

lemma trim_replicate: "\<not> isWhiteSpace x \<Longrightarrow> trim (replicate n x) = replicate n x"
  by (simp add: trim_def dropWhile_replicate)

lemma x_not_space: "\<not> isWhiteSpace (CHR ''x'')"
  by (simp add: isWhiteSpace_def)

lemma fullText_facts: "length fullText = 1000 \<and> trim fullText = fullText \<and> fullText \<noteq> []"
proof -
  have "length fullText = 1000"
    by (simp only: fullText_def length_replicate)
  moreover have "trim fullText = fullText"
    unfolding fullText_def by (rule trim_replicate [OF x_not_space])
  ultimately show ?thesis by auto
qed

lemma longText_facts: "1000 < length longText \<and> trim longText = longText \<and> longText \<noteq> []"
proof -
  have "length longText = 1001" by (rule length_longText)
  moreover have "trim longText = longText"
    unfolding longText_def by (rule trim_replicate [OF x_not_space])
  ultimately show ?thesis by auto
qed

theorem sendMessage_text_validation_witness:
  "bobId \<noteq> [] \<and> length fullText = 1000 \<and> trim fullText \<noteq> [] \<and> castObjectId bobId = Some bobId \<and>
   (\<exists>m. privateMessages (fst (sendMessage initialServer alice (Some fullText) (Some bobId) None (Some ''text'') 5 helloId))
          = privateMessages initialServer @ [m] \<and> content m = Some (trim fullText)) \<and>
   trim ''  '' = [] \<and>
   sendMessage initialServer alice (Some ''  '') (Some bobId) None (Some ''text'') 5 helloId
     = (initialServer, []) \<and>
   1000 < length longText \<and> trim longText \<noteq> [] \<and>
   sendMessage initialServer alice (Some longText) (Some bobId) None (Some ''text'') 5 helloId
     = (initialServer, [(ToSocket (sock_id alice), Error ''Message too long'')]) \<and>
   recipients initialServer (ToSocket (sock_id alice)) = {sock_id alice}"
proof -
  have b: "bobId \<noteq> []" "castObjectId bobId = Some bobId"
    by (simp_all add: bobId_def castObjectId_def isHexDigit_def toLowerHex_def)
  have m: "Some ''text'' = None \<or> Some ''text'' = Some ''text''" by simp
  have w: "trim ''  '' = []" by (simp add: trim_def isWhiteSpace_def)
  from fullText_facts have f: "length fullText = 1000" "trim fullText \<noteq> []" by auto
  from longText_facts have l: "1000 < length longText" "trim longText \<noteq> []" by auto
  from sendMessage_text_validation
      [OF b(1) m, of fullText bobId initialServer alice None 5 helloId "Some ''  ''"]
    sendMessage_text_validation
      [OF b(1) m, of longText bobId initialServer alice None 5 helloId "Some ''  ''"]
    b w f l
  show ?thesis by simp
qed

text \<open>
  The claim as stated fails: a text send with empty content emits nothing, so the sender
  receives no error event.
\<close>

theorem empty_text_no_error_counterexample:
  "sendMessage initialServer alice (Some []) (Some bobId) None (Some ''text'') 5 helloId
     = (initialServer, [])"
  by (simp add: sendMessage_def Let_def falsy_def bobId_def)

section \<open>Joining a private chat\<close>

lemma fold_socketLeave_fields:
  "users (fold (socketLeave i) rs s) = users s \<and>
   privateMessages (fold (socketLeave i) rs s) = privateMessages s \<and>
   userRooms (fold (socketLeave i) rs s) = userRooms s \<and>
   sockets (fold (socketLeave i) rs s) = sockets s"
  by (induction rs arbitrary: s) (simp_all add: socketLeave_def)

lemma joinPrivateChat_state:
  "users (fst (joinPrivateChat s sock t)) = users s \<and>
   privateMessages (fst (joinPrivateChat s sock t)) = privateMessages s \<and>
   sock_id sock \<in> adapterRooms (fst (joinPrivateChat s sock t)) (getPrivateRoomName (sock_user_id sock) t) \<and>
   userRooms (fst (joinPrivateChat s sock t)) (sock_id sock) = Some [getPrivateRoomName (sock_user_id sock) t]"
  by (simp add: joinPrivateChat_def Let_def socketJoin_def fold_socketLeave_fields
      split: option.splits)

lemma joinPrivateChat_out:
  assumes "castObjectId t = Some b"
  shows "snd (joinPrivateChat s sock t)
           = [(ToSocket (sock_id sock),
               RecentMessages (getPrivateRoomName (sock_user_id sock) t)
                 (rev (findRecent 50 (sock_user_id sock) b s)) True t)]"
  using assms
  by (simp add: joinPrivateChat_def Let_def socketJoin_def fold_socketLeave_fields findRecent_def)

lemma doc_populate: "doc (populate us m) = m"
  by (simp add: populate_def)

lemma map_doc_findRecent:
  "map doc (findRecent n a b s)
     = take n (sort_key (\<lambda>m. - createdAt m) (filter (betweenUsers a b) (privateMessages s)))"
  by (simp add: findRecent_def doc_populate comp_def)

lemma sorted_desc_rev:
  "sorted (map (\<lambda>m. - (f m :: int)) zs) \<Longrightarrow> sorted (map f (rev zs))"
  by (simp add: sorted_wrt_map sorted_wrt_rev rev_map)

lemma take_sorted_desc:
  "sorted (map (\<lambda>m. - createdAt m) (take n (sort_key (\<lambda>m. - createdAt m) xs)))"
  by (simp add: take_map [symmetric])

lemma most_recent_taken:
  assumes "p \<in> set (take n (sort_key (\<lambda>m. - createdAt m) xs))"
    and "m \<in> set xs" and "m \<notin> set (take n (sort_key (\<lambda>m. - createdAt m) xs))"
  shows "createdAt m \<le> createdAt p"
proof -
  let ?g = "\<lambda>m. - createdAt m"
  let ?ys = "sort_key ?g xs"
  have "set ?ys = set (take n ?ys) \<union> set (drop n ?ys)"
    by (simp only: set_append [symmetric] append_take_drop_id)
  with assms(2,3) have d: "m \<in> set (drop n ?ys)" by simp
  have "sorted (map ?g (take n ?ys) @ map ?g (drop n ?ys))"
    by (simp only: map_append [symmetric] append_take_drop_id sorted_sort_key)
  then have "\<forall>x \<in> set (map ?g (take n ?ys)). \<forall>y \<in> set (map ?g (drop n ?ys)). x \<le> y"
    by (simp only: sorted_wrt_append) simp
  with assms(1) d have "- createdAt p \<le> - createdAt m" by simp
  then show ?thesis by simp
qed

lemma sort_key_newest_first:
  assumes "\<forall>x \<in> set xs. createdAt x < createdAt m"
  shows "sort_key (\<lambda>m. - createdAt m) (xs @ [m]) = m # sort_key (\<lambda>m. - createdAt m) xs"
proof -
  have "foldr (insort_key (\<lambda>m. - createdAt m)) xs [m]
          = m # foldr (insort_key (\<lambda>m. - createdAt m)) xs []"
    using assms by (induction xs) auto
  then show ?thesis by (simp add: sort_key_def)
qed

text \<open>
  C9. joinPrivateChat for a target that denotes an identity puts the session into the
  room named after the caller and the target, and emits one event, to the requesting
  socket alone: the history. The history holds stored messages between the two
  identities only, all of them when there are at most 50 and 50 otherwise, in ascending
  order of creation; every message of the pair it leaves out is at most as recent as every
  message it holds.
\<close>

theorem joinPrivateChat_subscribes_and_delivers_history:
  assumes "castObjectId targetUserId = Some b"
    and "joinPrivateChat s sock targetUserId = (s', out)"
  shows "sock_id sock \<in> adapterRooms s' (getPrivateRoomName (sock_user_id sock) targetUserId) \<and>
         (\<exists>msgs.
            out = [(ToSocket (sock_id sock),
                    RecentMessages (getPrivateRoomName (sock_user_id sock) targetUserId) msgs True
                      targetUserId)] \<and>
            recipients s' (ToSocket (sock_id sock)) = {sock_id sock} \<and>
            length msgs \<le> 50 \<and>
            length msgs = min 50 (length (filter (betweenUsers (sock_user_id sock) b) (privateMessages s))) \<and>
            sorted (map (\<lambda>p. createdAt (doc p)) msgs) \<and>
            (\<forall>p \<in> set msgs. doc p \<in> set (privateMessages s) \<and> betweenUsers (sock_user_id sock) b (doc p)) \<and>
            (\<forall>m \<in> set (privateMessages s).
               betweenUsers (sock_user_id sock) b m \<and> m \<notin> doc ` set msgs \<longrightarrow>
               (\<forall>p \<in> set msgs. createdAt m \<le> createdAt (doc p))))"
proof -
  let ?a = "sock_user_id sock"
  let ?xs = "filter (betweenUsers ?a b) (privateMessages s)"
  let ?zs = "take 50 (sort_key (\<lambda>m. - createdAt m) ?xs)"
  let ?msgs = "rev (findRecent 50 ?a b s')"
  from assms(2) have s': "s' = fst (joinPrivateChat s sock targetUserId)"
    and out: "out = snd (joinPrivateChat s sock targetUserId)"
    by simp_all
  from s' joinPrivateChat_state [of s sock targetUserId]
  have st: "users s' = users s" "privateMessages s' = privateMessages s"
    "sock_id sock \<in> adapterRooms s' (getPrivateRoomName ?a targetUserId)"
    by simp_all
  have fr: "findRecent 50 ?a b s' = findRecent 50 ?a b s"
    by (simp add: findRecent_def st)
  have o: "out = [(ToSocket (sock_id sock),
                    RecentMessages (getPrivateRoomName ?a targetUserId) ?msgs True targetUserId)]"
    using out joinPrivateChat_out [OF assms(1), of s sock] fr by simp
  have d: "map doc ?msgs = rev ?zs"
    by (simp add: rev_map [symmetric] map_doc_findRecent st)
  then have ds: "doc ` set ?msgs = set ?zs"
    by (metis set_map set_rev)
  have l: "length ?msgs = min 50 (length ?xs)"
    using arg_cong [OF d, of length] by (simp add: min.commute)
  have so: "sorted (map (\<lambda>p. createdAt (doc p)) ?msgs)"
  proof -
    have "map (\<lambda>p. createdAt (doc p)) ?msgs = map createdAt (map doc ?msgs)"
      by (simp add: comp_def)
    also have "\<dots> = map createdAt (rev ?zs)"
      by (simp only: d)
    finally show ?thesis
      using sorted_desc_rev [OF take_sorted_desc [of 50 ?xs]] by simp
  qed
  have sub: "set ?zs \<subseteq> set ?xs"
    using set_take_subset [of 50 "sort_key (\<lambda>m. - createdAt m) ?xs"] by simp
  have mem: "\<forall>p \<in> set ?msgs. doc p \<in> set (privateMessages s) \<and> betweenUsers ?a b (doc p)"
    using ds sub by auto
  have rec: "\<forall>m \<in> set (privateMessages s).
               betweenUsers ?a b m \<and> m \<notin> doc ` set ?msgs \<longrightarrow>
               (\<forall>p \<in> set ?msgs. createdAt m \<le> createdAt (doc p))"
  proof (intro ballI impI)
    fix m p
    assume m: "m \<in> set (privateMessages s)" "betweenUsers ?a b m \<and> m \<notin> doc ` set ?msgs"
      and p: "p \<in> set ?msgs"
    from p ds have "doc p \<in> set ?zs" by blast
    moreover from m have "m \<in> set ?xs" by simp
    moreover from m ds have "m \<notin> set ?zs" by simp
    ultimately show "createdAt m \<le> createdAt (doc p)"
      by (rule most_recent_taken)
  qed
  have r: "recipients s' (ToSocket (sock_id sock)) = {sock_id sock}"
    by (simp add: recipients_def)
  from l have l50: "length ?msgs \<le> 50" by simp
  from st(3) o r l50 l so mem rec show ?thesis by blast
qed

lemma busyServer_history:
  "snd (joinPrivateChat busyServer alice bobId)
     = [(ToSocket (sock_id alice),
         RecentMessages (getPrivateRoomName (sock_user_id alice) bobId)
           [populate (users busyServer) hello, populate (users busyServer) reply] True bobId)]"
proof -
  have c: "castObjectId bobId = Some bobId"
    by (simp add: bobId_def castObjectId_def isHexDigit_def toLowerHex_def)
  have f: "filter (betweenUsers (sock_user_id alice) bobId) (privateMessages busyServer) = [hello, reply]"
    by (simp add: busyServer_def betweenUsers_def hello_def reply_def aside_def newMessage_def
        alice_def aliceId_def bobId_def carolId_def)
  have k: "createdAt hello = 10" "createdAt reply = 12"
    by (simp_all add: hello_def reply_def newMessage_def)
  have "findRecent 50 (sock_user_id alice) bobId busyServer
          = [populate (users busyServer) reply, populate (users busyServer) hello]"
    by (simp add: findRecent_def f k)
  with joinPrivateChat_out [OF c, of busyServer alice] show ?thesis by simp
qed

theorem joinPrivateChat_subscribes_and_delivers_history_witness:
  "castObjectId bobId = Some bobId \<and>
   snd (joinPrivateChat busyServer alice bobId)
     = [(ToSocket (sock_id alice),
         RecentMessages (getPrivateRoomName (sock_user_id alice) bobId)
           [populate (users busyServer) hello, populate (users busyServer) reply] True bobId)] \<and>
   sock_id alice \<in> adapterRooms (fst (joinPrivateChat busyServer alice bobId))
                     (getPrivateRoomName (sock_user_id alice) bobId) \<and>
   (\<exists>msgs.
      snd (joinPrivateChat busyServer alice bobId)
        = [(ToSocket (sock_id alice),
            RecentMessages (getPrivateRoomName (sock_user_id alice) bobId) msgs True bobId)] \<and>
      recipients (fst (joinPrivateChat busyServer alice bobId)) (ToSocket (sock_id alice)) = {sock_id alice} \<and>
      length msgs \<le> 50 \<and>
      length msgs = min 50 (length (filter (betweenUsers (sock_user_id alice) bobId) (privateMessages busyServer))) \<and>
      sorted (map (\<lambda>p. createdAt (doc p)) msgs) \<and>
      (\<forall>p \<in> set msgs. doc p \<in> set (privateMessages busyServer) \<and> betweenUsers (sock_user_id alice) bobId (doc p)) \<and>
      (\<forall>m \<in> set (privateMessages busyServer).
         betweenUsers (sock_user_id alice) bobId m \<and> m \<notin> doc ` set msgs \<longrightarrow>
         (\<forall>p \<in> set msgs. createdAt m \<le> createdAt (doc p))))"
proof -
  have c: "castObjectId bobId = Some bobId"
    by (simp add: bobId_def castObjectId_def isHexDigit_def toLowerHex_def)
  have e: "joinPrivateChat busyServer alice bobId
      = (fst (joinPrivateChat busyServer alice bobId), snd (joinPrivateChat busyServer alice bobId))"
    by simp
  from joinPrivateChat_subscribes_and_delivers_history [OF c e] c busyServer_history
  show ?thesis by blast
qed

section \<open>A sent message in the next history\<close>

lemma findRecent_newest:
  assumes "betweenUsers a b m"
    and "\<forall>x \<in> set ms. createdAt x < createdAt m"
    and "privateMessages s = ms @ [m]"
  shows "rev (findRecent 50 a b s) \<noteq> [] \<and> last (rev (findRecent 50 a b s)) = populate (users s) m"
proof -
  let ?g = "\<lambda>m. - createdAt m"
  let ?xs = "filter (betweenUsers a b) ms"
  from assms(1,3) have f: "filter (betweenUsers a b) (privateMessages s) = ?xs @ [m]"
    by simp
  from assms(2) have "\<forall>x \<in> set ?xs. createdAt x < createdAt m" by simp
  then have "sort_key ?g (?xs @ [m]) = m # sort_key ?g ?xs"
    by (rule sort_key_newest_first)
  with f have "findRecent 50 a b s
      = populate (users s) m # map (populate (users s)) (take 49 (sort_key ?g ?xs))"
    by (simp add: findRecent_def)
  then show ?thesis by simp
qed

text \<open>
  C3, as the code has it. A message accepted by sendMessage at a time later than the
  creation of every stored message is, in the history that a joinPrivateChat of either
  participant for the other then loads, the newest message. Its type and file descriptor
  are the values supplied. Its content is the supplied content without leading and
  trailing white space for a text message, and the empty string for any other type.
\<close>

theorem sent_message_in_next_history:
  assumes "sendMessage s sock c (Some t) fd mt now oid = (s1, out1)"
    and "privateMessages s1 \<noteq> privateMessages s"
    and "\<forall>m \<in> set (privateMessages s). createdAt m < now"
    and "castObjectId t = Some b" and "castObjectId t' = Some b'"
    and "sock_user_id j = sock_user_id sock \<and> b' = b \<or> sock_user_id j = b \<and> b' = sock_user_id sock"
    and "joinPrivateChat s1 j t' = (s2, out2)"
  shows "\<exists>msgs.
           out2 = [(ToSocket (sock_id j),
                    RecentMessages (getPrivateRoomName (sock_user_id j) t') msgs True t')] \<and>
           msgs \<noteq> [] \<and>
           msg_id (doc (last msgs)) = oid \<and>
           content (doc (last msgs))
             = (if case_option ''text'' id mt = ''text'' then map_option trim c else Some []) \<and>
           messageType (doc (last msgs)) = case_option ''text'' id mt \<and>
           fileData (doc (last msgs)) = fd"
proof -
  let ?m = "newMessage oid now
              (if case_option ''text'' id mt = ''text'' then map_option trim c else Some [])
              (sock_user_id sock) b (case_option ''text'' id mt) fd"
  from assms(1) have s1: "s1 = fst (sendMessage s sock c (Some t) fd mt now oid)" by simp
  with assms(2,4) sendMessage_state [of s sock c "Some t" fd mt now oid]
  have p: "privateMessages s1 = privateMessages s @ [?m]" by auto
  from assms(6) have bt: "betweenUsers (sock_user_id j) b' ?m"
    by (auto simp: betweenUsers_def newMessage_def)
  from assms(3) have n: "\<forall>x \<in> set (privateMessages s). createdAt x < createdAt ?m"
    by (simp add: newMessage_def)
  from findRecent_newest [OF bt n p]
  have l: "rev (findRecent 50 (sock_user_id j) b' s1) \<noteq> []"
    "last (rev (findRecent 50 (sock_user_id j) b' s1)) = populate (users s1) ?m"
    by simp_all
  from assms(7) joinPrivateChat_out [OF assms(5), of s1 j]
  have o: "out2 = [(ToSocket (sock_id j),
                    RecentMessages (getPrivateRoomName (sock_user_id j) t')
                      (rev (findRecent 50 (sock_user_id j) b' s1)) True t')]"
    by simp
  have d: "doc (populate (users s1) ?m) = ?m" by (rule doc_populate)
  have "msg_id ?m = oid"
    "content ?m = (if case_option ''text'' id mt = ''text'' then map_option trim c else Some [])"
    "messageType ?m = case_option ''text'' id mt"
    "fileData ?m = fd"
    by (simp_all add: newMessage_def)
  with o l d show ?thesis by metis
qed

theorem sent_message_in_next_history_witness:
  "privateMessages (fst (sendMessage chatServer alice (Some ''  see you  '') (Some bobId) None None 20 ''65a0c0ffee0000000000a005''))
     \<noteq> privateMessages chatServer \<and>
   map createdAt (privateMessages chatServer) = [10] \<and>
   castObjectId bobId = Some bobId \<and> castObjectId aliceId = Some aliceId \<and>
   sock_user_id bob = bobId \<and> aliceId = sock_user_id alice \<and>
   trim ''  see you  '' = ''see you'' \<and>
   (\<exists>msgs.
      snd (joinPrivateChat
             (fst (sendMessage chatServer alice (Some ''  see you  '') (Some bobId) None None 20 ''65a0c0ffee0000000000a005''))
             bob aliceId)
        = [(ToSocket (sock_id bob),
            RecentMessages (getPrivateRoomName (sock_user_id bob) aliceId) msgs True aliceId)] \<and>
      msgs \<noteq> [] \<and>
      msg_id (doc (last msgs)) = ''65a0c0ffee0000000000a005'' \<and>
      content (doc (last msgs)) = Some ''see you'' \<and>
      messageType (doc (last msgs)) = ''text'' \<and>
      fileData (doc (last msgs)) = None)"
proof -
  let ?send = "sendMessage chatServer alice (Some ''  see you  '') (Some bobId) None None 20 ''65a0c0ffee0000000000a005''"
  have cb: "castObjectId bobId = Some bobId" and ca: "castObjectId aliceId = Some aliceId"
    and nb: "bobId \<noteq> []"
    by (simp_all add: bobId_def aliceId_def castObjectId_def isHexDigit_def toLowerHex_def)
  have t: "trim ''  see you  '' = ''see you''"
    by (simp add: trim_def isWhiteSpace_def)
  then have t': "trim ''  see you  '' \<noteq> []" "length ''  see you  '' \<le> 1000" by simp_all
  have p: "privateMessages (fst ?send) \<noteq> privateMessages chatServer"
    using sendMessage_text_accepted [OF nb cb t', of None chatServer alice None 20 "''65a0c0ffee0000000000a005''"]
    by simp
  have k: "map createdAt (privateMessages chatServer) = [10]"
    by (simp add: chatServer_def hello_def)
  then have h: "\<forall>m \<in> set (privateMessages chatServer). createdAt m < 20"
    by (simp add: chatServer_def hello_def)
  have u: "sock_user_id bob = bobId" "aliceId = sock_user_id alice"
    by (simp_all add: bob_def alice_def)
  then have d: "sock_user_id bob = sock_user_id alice \<and> aliceId = bobId \<or>
                sock_user_id bob = bobId \<and> aliceId = sock_user_id alice"
    by simp
  have e1: "?send = (fst ?send, snd ?send)" by simp
  have e2: "joinPrivateChat (fst ?send) bob aliceId
      = (fst (joinPrivateChat (fst ?send) bob aliceId), snd (joinPrivateChat (fst ?send) bob aliceId))"
    by simp
  from sent_message_in_next_history [OF e1 p h cb ca d e2]
  obtain msgs where
    "snd (joinPrivateChat (fst ?send) bob aliceId)
        = [(ToSocket (sock_id bob),
            RecentMessages (getPrivateRoomName (sock_user_id bob) aliceId) msgs True aliceId)]"
    "msgs \<noteq> []"
    "msg_id (doc (last msgs)) = ''65a0c0ffee0000000000a005''"
    "content (doc (last msgs)) = Some ''see you''"
    "messageType (doc (last msgs)) = ''text''"
    "fileData (doc (last msgs)) = None"
    by (auto simp: t)
  with p k cb ca u t show ?thesis by blast
qed

text \<open>
  The claim as stated fails: Alice sends the text \<open>'' hi''\<close>, with a leading space, and
  the history Alice then loads holds the content \<open>''hi''\<close>.
\<close>

theorem trimmed_content_counterexample:
  "map (\<lambda>e. case snd e of RecentMessages r msgs pr tg \<Rightarrow> map (\<lambda>p. content (doc p)) msgs | _ \<Rightarrow> [])
     (snd (joinPrivateChat
             (fst (sendMessage initialServer alice (Some '' hi'') (Some bobId) None (Some ''text'') 5 helloId))
             alice bobId))
     = [[Some ''hi'']] \<and>
   Some ''hi'' \<noteq> Some '' hi''"
proof -
  let ?send = "sendMessage initialServer alice (Some '' hi'') (Some bobId) None (Some ''text'') 5 helloId"
  have cb: "castObjectId bobId = Some bobId" and nb: "bobId \<noteq> []"
    by (simp_all add: bobId_def castObjectId_def isHexDigit_def toLowerHex_def)
  have t: "trim '' hi'' = ''hi''"
    by (simp add: trim_def isWhiteSpace_def)
  have "fst ?send = initialServer\<lparr> privateMessages :=
            [newMessage helloId 5 (Some ''hi'') (sock_user_id alice) bobId ''text'' None] \<rparr>"
    using sendMessage_text_accepted [OF nb cb, of "'' hi''" "Some ''text''" initialServer alice None 5 helloId]
    by (simp add: t initialServer_def)
  then have "findRecent 50 (sock_user_id alice) bobId (fst ?send)
      = [populate (users initialServer) (newMessage helloId 5 (Some ''hi'') (sock_user_id alice) bobId ''text'' None)]"
    by (simp add: findRecent_def betweenUsers_def newMessage_def)
  with joinPrivateChat_out [OF cb, of "fst ?send" alice]
  show ?thesis by (simp add: doc_populate newMessage_def)
qed

section \<open>References to users that are not stored\<close>

text \<open>
  In general: when the sender or the receiver of the message is not a stored user, the
  edit is stored all the same, and the read of the room name from the
  \<^verbatim>\<open>null\<close> reference throws: nothing is emitted.
\<close>

lemma editMessage_reference_not_stored:
  assumes "castObjectId messageId = Some i"
    and "findById i (privateMessages s) = Some m"
    and "users s (sender m) = None \<or> users s (receiver m) = None"
  shows "editMessage s sock messageId newContent now
           = (s\<lparr> privateMessages :=
                  updateById i
                    (\<lambda>m. m\<lparr> content := Some newContent, edited := True,
                             editedAt := Some now, updatedAt := now \<rparr>)
                    (privateMessages s) \<rparr>, [])"
  using assms
  by (auto simp: editMessage_def updateAndBroadcast_def Let_def populate_def populateUser_def
      split: option.splits)

text \<open>
  Such a message can come from sendMessage itself: a target that denotes no stored user
  is saved as receiver before the receiver's name is read, and the sender then receives
  the error of the handler's \<^verbatim>\<open>catch\<close>.
\<close>

lemma sendMessage_receiver_not_stored:
  assumes "t \<noteq> []" and "castObjectId t = Some b" and "trim cv \<noteq> []" and "length cv \<le> 1000"
    and "users s b = None"
  shows "sendMessage s sock (Some cv) (Some t) fd None now oid
           = (s\<lparr> privateMessages := privateMessages s @
                  [newMessage oid now (Some (trim cv)) (sock_user_id sock) b ''text'' fd] \<rparr>,
              [(ToSocket (sock_id sock), Error ''Failed to send private message'')])"
proof -
  from assms(3) have "cv \<noteq> []" by (auto simp: trim_def)
  with assms save_text_ok [OF assms(2,3,4), of oid now "sock_user_id sock" fd]
  show ?thesis
    by (simp add: sendMessage_def Let_def falsy_def populateUser_def newMessage_def)
qed

end
